theory Spec2Isabelle
  imports Complex_Main
begin

section \<open>The value type \<open>Real\<close> of the host\<close>

text \<open>
  The problem generator \<^verbatim>\<open>src/pgen/cool_turb.cpp\<close> computes on the host's type
  \<^verbatim>\<open>Real\<close>, a C++ floating-point number. It is embedded as a real number or one of
  the three special values of the floating-point arithmetic, so that a division by zero and
  the logarithm of a non-positive number are values of the model as they are values of the
  program. Arithmetic on finite values is exact: rounding, overflow, underflow and the sign
  of zero (every zero is read as \<open>+0\<close>) are outside the model.
\<close>

datatype fpval = Finite real | PInf | NInf | NaN


instantiation fpval :: "{plus, minus, uminus, times, inverse, ord}"
begin

fun plus_fpval :: "fpval \<Rightarrow> fpval \<Rightarrow> fpval" where
  "plus_fpval (Finite a) (Finite b) = Finite (a + b)"
| "plus_fpval NaN y = NaN"
| "plus_fpval x NaN = NaN"
| "plus_fpval PInf NInf = NaN"
| "plus_fpval NInf PInf = NaN"
| "plus_fpval PInf y = PInf"
| "plus_fpval x PInf = PInf"
| "plus_fpval NInf y = NInf"
| "plus_fpval x NInf = NInf"

fun uminus_fpval :: "fpval \<Rightarrow> fpval" where
  "uminus_fpval (Finite a) = Finite (- a)"
| "uminus_fpval PInf = NInf"
| "uminus_fpval NInf = PInf"
| "uminus_fpval NaN = NaN"

definition minus_fpval :: "fpval \<Rightarrow> fpval \<Rightarrow> fpval" where
  "minus_fpval x y = x + (- y)"

fun times_fpval :: "fpval \<Rightarrow> fpval \<Rightarrow> fpval" where
  "times_fpval (Finite a) (Finite b) = Finite (a * b)"
| "times_fpval NaN y = NaN"
| "times_fpval x NaN = NaN"
| "times_fpval PInf (Finite b) = (if b = 0 then NaN else if 0 < b then PInf else NInf)"
| "times_fpval NInf (Finite b) = (if b = 0 then NaN else if 0 < b then NInf else PInf)"
| "times_fpval (Finite a) PInf = (if a = 0 then NaN else if 0 < a then PInf else NInf)"
| "times_fpval (Finite a) NInf = (if a = 0 then NaN else if 0 < a then NInf else PInf)"
| "times_fpval PInf PInf = PInf"
| "times_fpval PInf NInf = NInf"
| "times_fpval NInf PInf = NInf"
| "times_fpval NInf NInf = PInf"

fun divide_fpval :: "fpval \<Rightarrow> fpval \<Rightarrow> fpval" where
  "divide_fpval (Finite a) (Finite b) =
     (if b \<noteq> 0 then Finite (a / b)
      else if a = 0 then NaN else if 0 < a then PInf else NInf)"
| "divide_fpval NaN y = NaN"
| "divide_fpval x NaN = NaN"
| "divide_fpval (Finite a) PInf = Finite 0"
| "divide_fpval (Finite a) NInf = Finite 0"
| "divide_fpval PInf (Finite b) = (if 0 \<le> b then PInf else NInf)"
| "divide_fpval NInf (Finite b) = (if 0 \<le> b then NInf else PInf)"
| "divide_fpval PInf y = NaN"
| "divide_fpval NInf y = NaN"

definition inverse_fpval :: "fpval \<Rightarrow> fpval" where
  "inverse_fpval x = divide (Finite 1) x"

fun less_fpval :: "fpval \<Rightarrow> fpval \<Rightarrow> bool" where
  "less_fpval (Finite a) (Finite b) = (a < b)"
| "less_fpval NaN y = False"
| "less_fpval x NaN = False"
| "less_fpval PInf y = False"
| "less_fpval x PInf = True"
| "less_fpval x NInf = False"
| "less_fpval NInf y = True"

fun less_eq_fpval :: "fpval \<Rightarrow> fpval \<Rightarrow> bool" where
  "less_eq_fpval (Finite a) (Finite b) = (a \<le> b)"
| "less_eq_fpval NaN y = False"
| "less_eq_fpval x NaN = False"
| "less_eq_fpval x PInf = True"
| "less_eq_fpval NInf y = True"
| "less_eq_fpval PInf y = False"
| "less_eq_fpval x NInf = False"

instance ..

end

text \<open>\<^verbatim>\<open>std::log10\<close>: minus infinity at zero, no number below zero.\<close>

fun log10 :: "fpval \<Rightarrow> fpval" where
  "log10 (Finite a) = (if 0 < a then Finite (log 10 a) else if a = 0 then NInf else NaN)"
| "log10 PInf = PInf"
| "log10 NInf = NaN"
| "log10 NaN = NaN"

text \<open>\<^verbatim>\<open>std::pow\<close>, the only use of which in the source has the base \<open>10.0\<close>.\<close>

fun pow10 :: "fpval \<Rightarrow> fpval" where
  "pow10 (Finite a) = Finite (10 powr a)"
| "pow10 PInf = PInf"
| "pow10 NInf = Finite 0"
| "pow10 NaN = NaN"

text \<open>The number a finite value stands for; the three special values stand for none.\<close>

fun finite_part :: "fpval \<Rightarrow> real" where
  "finite_part (Finite a) = a"
| "finite_part PInf = 0"
| "finite_part NInf = 0"
| "finite_part NaN = 0"

section \<open>The cooling curve\<close>

text \<open>\<^verbatim>\<open>Real TempToLambda(Real log10T)\<close>, lines 34 to 48.\<close>

definition TempToLambda :: "fpval \<Rightarrow> fpval" where
  "TempToLambda log10T =
     (if log10T < Finite 4.0 then Finite (- 24.0)
      else if log10T \<ge> Finite 4.0 \<and> log10T < Finite 5.0 then
        Finite (- 24.0) + (Finite (- 20.5) + Finite 24.0) * (log10T - Finite 4.0)
      else if log10T \<ge> Finite 5.0 \<and> log10T < Finite 7.5 then
        Finite (- 20.5) + (Finite (- 22.5) + Finite 20.5) * (log10T - Finite 5.0)
          / (Finite 7.5 - Finite 5.0)
      else if log10T \<ge> Finite 7.5 \<and> log10T < Finite 9.0 then
        Finite (- 22.5) + (Finite (- 22.0) + Finite 22.5) * (log10T - Finite 7.5)
          / (Finite 9.0 - Finite 7.5)
      else
        Finite (- 22.0) + (log10T - Finite 9.0) / Finite 3.0)"

text \<open>
  The table of the specification (section 4.1), segment by segment and as written there;
  it is compared with \<open>TempToLambda\<close> below.
\<close>

definition segment1 :: "real \<Rightarrow> real" where
  "segment1 x = - 24.0"

definition segment2 :: "real \<Rightarrow> real" where
  "segment2 x = - 24.0 + 3.5 * (x - 4.0)"

definition segment3 :: "real \<Rightarrow> real" where
  "segment3 x = - 20.5 - (2.0 / 2.5) * (x - 5.0)"

definition segment4 :: "real \<Rightarrow> real" where
  "segment4 x = - 22.5 + (0.5 / 1.5) * (x - 7.5)"

definition segment5 :: "real \<Rightarrow> real" where
  "segment5 x = - 22.0 + (x - 9.0) / 3.0"

definition CoolingCurve_table :: "real \<Rightarrow> real" where
  "CoolingCurve_table x =
     (if x < 4.0 then segment1 x
      else if x < 5.0 then segment2 x
      else if x < 7.5 then segment3 x
      else if x < 9.0 then segment4 x
      else segment5 x)"

section \<open>Host data read and written by the problem generator\<close>

text \<open>
  The fixed constants of the source: \<^verbatim>\<open>mu\<close>, \<^verbatim>\<open>kB\<close> and \<^verbatim>\<open>amu\<close> are declared with the
  same values in \<^verbatim>\<open>CoolingSource\<close> and in \<^verbatim>\<open>ProblemGenerator\<close>; \<^verbatim>\<open>temp_goal\<close> and \<^verbatim>\<open>tau\<close>
  in \<^verbatim>\<open>CoolingSource\<close> only.
\<close>

definition mu :: real where
  "mu = 0.62"

definition kB :: real where
  "kB = 1.3807 / 10 ^ 16"

definition amu :: real where
  "amu = 1.660539 / 10 ^ 24"

definition temp_goal :: real where
  "temp_goal = 0.1"

text \<open>\<^verbatim>\<open>tau\<close> is declared in the source and read only by the update that is commented out (line 74).\<close>

definition tau :: real where
  "tau = 0.01"

text \<open>
  Modelled from the spec: the index names of the host's \<^verbatim>\<open>athena.hpp\<close>, which is not among
  the sources at hand. Section 3 of the specification lists the components: mass density,
  three momentum densities and total energy density of the conserved state; density and
  pressure of the primitive state. The numbers behind the names are not used, and \<open>IPR\<close>
  is kept apart from \<open>IEN\<close>: the primitive and the conserved array are different arrays,
  and nothing below depends on whether the two names stand for the same number.
\<close>

datatype var_index = IDN | IM1 | IM2 | IM3 | IEN | IPR

text \<open>
  An \<^verbatim>\<open>AthenaArray\<close> of \<^verbatim>\<open>Real\<close> is read and written as \<^verbatim>\<open>a(n,k,j,i)\<close>: a function of the
  variable index and of the three cell indices. The host's accessor checks no bounds; the
  loops below stay within the index range of the block.
\<close>

type_synonym 'n AthenaArray = "'n \<times> int \<times> int \<times> int \<Rightarrow> fpval"

text \<open>
  The part of a \<^verbatim>\<open>MeshBlock\<close> the source uses: the index range of the cells the block owns,
  the adiabatic index behind \<^verbatim>\<open>peos->GetGamma()\<close> and the conserved array \<^verbatim>\<open>phydro->u\<close>.
  The member \<^verbatim>\<open>is\<close> is written \<open>is'\<close>.
\<close>

record MeshBlock =
  ks :: int
  ke :: int
  js :: int
  je :: int
  is' :: int
  ie :: int
  peos_GetGamma :: fpval
  phydro_u :: "var_index AthenaArray"

text \<open>
  The five arrays handed to a source term, the conserved ones by mutable reference, the
  others as constants. They are taken to be five distinct objects.
\<close>

record source_arrays =
  prim :: "var_index AthenaArray"
  prim_scalar :: "nat AthenaArray"
  bcc :: "nat AthenaArray"
  cons :: "var_index AthenaArray"
  cons_scalar :: "nat AthenaArray"

text \<open>
  The compile-time switches of the host that the source tests: the macros
  \<^verbatim>\<open>SELF_GRAVITY_ENABLED\<close> and \<^verbatim>\<open>NON_BAROTROPIC_EOS\<close>, and whether \<^verbatim>\<open>FFT\<close> is defined.
\<close>

record build_config =
  SELF_GRAVITY_ENABLED :: bool
  FFT :: bool
  NON_BAROTROPIC_EOS :: bool

text \<open>
  The three lookups of \<^verbatim>\<open>ParameterInput\<close> the source calls, each by block and key; their
  code is not among the sources, so they are taken as given functions.
\<close>

record ParameterInput =
  GetReal :: "string \<Rightarrow> string \<Rightarrow> fpval"
  GetOrAddReal :: "string \<Rightarrow> string \<Rightarrow> fpval \<Rightarrow> fpval"
  GetInteger :: "string \<Rightarrow> string \<Rightarrow> int"

section \<open>Loops\<close>

text \<open>
  \<^verbatim>\<open>for (int i = lo; i <= hi; ++i) body\<close> on a state. The counter is an unbounded integer:
  the index range of a block is far from the ends of a machine \<^verbatim>\<open>int\<close>.
\<close>

function for_loop :: "int \<Rightarrow> int \<Rightarrow> (int \<Rightarrow> 'a \<Rightarrow> 'a) \<Rightarrow> 'a \<Rightarrow> 'a" where
  "for_loop i hi body s = (if i \<le> hi then for_loop (i + 1) hi body (body i s) else s)"
  by pat_completeness auto
termination
  by (relation "measure (\<lambda>(i, hi, body, s). nat (hi + 1 - i))") auto

declare for_loop.simps [simp del]

section \<open>The cooling source term\<close>

text \<open>
  \<^verbatim>\<open>void CoolingSource(MeshBlock *pmb, const Real time, const Real dt, prim, prim_scalar,
  bcc, cons, cons_scalar)\<close>, lines 54 to 81. The arrays come in one record and go out in
  one record.
\<close>

definition CoolingSource ::
  "MeshBlock \<Rightarrow> fpval \<Rightarrow> fpval \<Rightarrow> source_arrays \<Rightarrow> source_arrays" where
  "CoolingSource pmb time dt a =
     (let g = peos_GetGamma pmb in
      a\<lparr>cons :=
        for_loop (ks pmb) (ke pmb) (\<lambda>k.
          for_loop (js pmb) (je pmb) (\<lambda>j.
            for_loop (is' pmb) (ie pmb) (\<lambda>i c.
              let temp = prim a (IPR, k, j, i) / prim a (IDN, k, j, i)
                           * Finite mu * Finite amu / Finite kB;
                  log10T = log10 temp;
                  log10Lambda = TempToLambda log10T;
                  Lambda = pow10 log10Lambda
              in if temp > Finite temp_goal then
                   c((IEN, k, j, i) :=
                      c (IEN, k, j, i)
                        - dt * prim a (IDN, k, j, i) * prim a (IDN, k, j, i)
                            / Finite amu / Finite amu * Lambda)
                 else c)))
          (cons a)\<rparr>)"

text \<open>
  The body of the innermost loop (lines 68 to 76) read on the values of one cell: the
  pressure \<open>p\<close>, the density \<open>rho\<close> and the energy \<open>e\<close> it finds there.
\<close>

definition cell_temp :: "fpval \<Rightarrow> fpval \<Rightarrow> fpval" where
  "cell_temp p rho = p / rho * Finite mu * Finite amu / Finite kB"

definition cell_energy :: "fpval \<Rightarrow> fpval \<Rightarrow> fpval \<Rightarrow> fpval \<Rightarrow> fpval" where
  "cell_energy dt p rho e =
     (if cell_temp p rho > Finite temp_goal then
        e - dt * rho * rho / Finite amu / Finite amu
              * pow10 (TempToLambda (log10 (cell_temp p rho)))
      else e)"

text \<open>The cells a block owns: the range of the three loops.\<close>

definition owned :: "MeshBlock \<Rightarrow> int \<Rightarrow> int \<Rightarrow> int \<Rightarrow> bool" where
  "owned pmb k j i =
     (ks pmb \<le> k \<and> k \<le> ke pmb \<and> js pmb \<le> j \<and> j \<le> je pmb \<and> is' pmb \<le> i \<and> i \<le> ie pmb)"

section \<open>The initial state\<close>

text \<open>
  \<^verbatim>\<open>void MeshBlock::ProblemGenerator(ParameterInput *pin)\<close>, lines 121 to 145. The block is
  the receiver; the function writes its conserved array \<^verbatim>\<open>phydro->u\<close>.
\<close>

definition ProblemGenerator :: "build_config \<Rightarrow> ParameterInput \<Rightarrow> MeshBlock \<Rightarrow> MeshBlock" where
  "ProblemGenerator cfg pin pmb =
     (let rho = GetReal pin ''problem'' ''rho'';
          T = GetReal pin ''problem'' ''T'';
          gamma = GetReal pin ''hydro'' ''gamma'';
          gm1 = gamma - Finite 1.0
      in pmb\<lparr>phydro_u :=
        for_loop (ks pmb) (ke pmb) (\<lambda>k.
          for_loop (js pmb) (je pmb) (\<lambda>j.
            for_loop (is' pmb) (ie pmb) (\<lambda>i u.
              let u1 = u((IDN, k, j, i) := rho);
                  u2 = u1((IM1, k, j, i) := Finite 0.0);
                  u3 = u2((IM2, k, j, i) := Finite 0.0);
                  u4 = u3((IM3, k, j, i) := Finite 0.0)
              in if NON_BAROTROPIC_EOS cfg then
                   u4((IEN, k, j, i) := rho * Finite kB * T / gm1 / Finite mu / Finite amu)
                 else u4)))
          (phydro_u pmb)\<rparr>)"

section \<open>Setting up the mesh\<close>

text \<open>
  Modelled from the spec: the host's \<^verbatim>\<open>ATHENA_ERROR\<close> (\<^verbatim>\<open>athena.hpp\<close>) and the three
  methods of \<^verbatim>\<open>Mesh\<close> that \<^verbatim>\<open>InitUserMeshData\<close> calls (\<^verbatim>\<open>mesh.hpp\<close>) are not among the sources
  at hand. Section 4.4 of the specification says that the error is fatal and carries a
  diagnostic, that the two gravity parameters are forwarded to the gravity subsystem of the
  host, and that the source term is registered with the host. The error is a value of the
  result; each call into the host is recorded, in order, in the mesh.
\<close>

datatype error = FatalError string

datatype host_call =
    SetFourPiG fpval
  | SetGravityThreshold fpval
  | EnrollUserExplicitSourceFunction
      "MeshBlock \<Rightarrow> fpval \<Rightarrow> fpval \<Rightarrow> source_arrays \<Rightarrow> source_arrays"

record Mesh =
  turb_flag :: int
  host_calls :: "host_call list"

definition call :: "host_call \<Rightarrow> Mesh \<Rightarrow> Mesh" where
  "call c m = m\<lparr>host_calls := host_calls m @ [c]\<rparr>"

text \<open>The text streamed into \<^verbatim>\<open>msg\<close>, lines 104 and 105; \<^verbatim>\<open>std::endl\<close> is a line feed.\<close>

definition msg :: string where
  "msg = ''### FATAL ERROR in TurbulenceDriver::TurbulenceDriver'' @ [CHR 0x0A]
       @ ''non zero Turbulence flag is set without FFT!'' @ [CHR 0x0A]"

text \<open>\<^verbatim>\<open>void Mesh::InitUserMeshData(ParameterInput *pin)\<close>, lines 88 to 114.\<close>

definition InitUserMeshData :: "build_config \<Rightarrow> ParameterInput \<Rightarrow> Mesh \<Rightarrow> error + Mesh" where
  "InitUserMeshData cfg pin m =
     (let m1 = (if SELF_GRAVITY_ENABLED cfg then
                  (let four_pi_G = GetReal pin ''problem'' ''four_pi_G'';
                       eps = GetOrAddReal pin ''problem'' ''grav_eps'' (Finite 0.0)
                   in call (SetGravityThreshold eps) (call (SetFourPiG four_pi_G) m))
                else m);
          m2 = m1\<lparr>turb_flag := GetInteger pin ''problem'' ''turb_flag''\<rparr>
      in if turb_flag m2 \<noteq> 0 \<and> \<not> FFT cfg then Inl (FatalError msg)
         else Inr (call (EnrollUserExplicitSourceFunction CoolingSource) m2))"

section \<open>Concrete inputs\<close>

text \<open>A block of two cells, \<open>(0,0,0)\<close> and \<open>(0,0,1)\<close>, used to run the functions below.\<close>

definition example_block :: MeshBlock where
  "example_block =
     \<lparr>ks = 0, ke = 0, js = 0, je = 0, is' = 0, ie = 1,
      peos_GetGamma = Finite (5 / 3), phydro_u = (\<lambda>x. Finite 7)\<rparr>"

text \<open>Arrays with the same pressure, density and energy in every cell.\<close>

definition example_arrays :: "real \<Rightarrow> real \<Rightarrow> real \<Rightarrow> source_arrays" where
  "example_arrays p rho e =
     \<lparr>prim = (\<lambda>x. if fst x = IPR then Finite p else Finite rho),
      prim_scalar = (\<lambda>x. Finite 0),
      bcc = (\<lambda>x. Finite 0),
      cons = (\<lambda>x. Finite e),
      cons_scalar = (\<lambda>x. Finite 0)\<rparr>"

text \<open>
  A parameter file with \<open>rho = 1\<close>, \<open>T = 10\<^sup>6\<close>, \<open>gamma = 5/3\<close>, \<open>four_pi_G = 1\<close>, no
  \<open>grav_eps\<close> (the lookup returns the default it is given) and the turbulence flag \<open>tf\<close>.
\<close>

definition example_pin :: "int \<Rightarrow> ParameterInput" where
  "example_pin tf =
     \<lparr>GetReal = (\<lambda>block key.
         if key = ''rho'' then Finite 1
         else if key = ''T'' then Finite (10 ^ 6)
         else if key = ''gamma'' then Finite (5 / 3)
         else Finite 1),
      GetOrAddReal = (\<lambda>block key def. def),
      GetInteger = (\<lambda>block key. tf)\<rparr>"

definition example_mesh :: Mesh where
  "example_mesh = \<lparr>turb_flag = 0, host_calls = []\<rparr>"

section \<open>Properties of the cooling curve\<close>

lemma TempToLambda_Finite:
  "TempToLambda (Finite x) =
     Finite (if x < 4 then - 24
             else if x < 5 then - 24 + (- 20.5 + 24) * (x - 4)
             else if x < 7.5 then - 20.5 + (- 22.5 + 20.5) * (x - 5) / (7.5 - 5)
             else if x < 9 then - 22.5 + (- 22 + 22.5) * (x - 7.5) / (9 - 7.5)
             else - 22 + (x - 9) / 3)"
  by (simp add: TempToLambda_def minus_fpval_def)

lemma TempToLambda_CoolingCurve_table:
  "TempToLambda (Finite x) = Finite (CoolingCurve_table x)"
  by (simp add: TempToLambda_Finite CoolingCurve_table_def segment1_def segment2_def
      segment3_def segment4_def segment5_def field_simps)

text \<open>
  C2. On every real input the function returns the value of the five-segment table of
  section 4.1 of the specification: each segment is closed on the left and open on the
  right, and the last one has no upper end.
\<close>

theorem TempToLambda_table:
  "TempToLambda (Finite x) = Finite (CoolingCurve_table x)"
  by (rule TempToLambda_CoolingCurve_table)

text \<open>
  The table as one expression: a constant up to \<open>4\<close>, then three linear pieces glued at
  \<open>5\<close> and \<open>7.5\<close> (the slope is \<open>1/3\<close> on both sides of \<open>9\<close>). It is continuous.
\<close>

lemma CoolingCurve_table_clamp:
  "CoolingCurve_table x =
     - 24 + 7 / 2 * (min (max x 4) 5 - 4) - 4 / 5 * (min (max x 5) (15 / 2) - 5)
       + (max x (15 / 2) - 15 / 2) / 3"
  by (simp add: CoolingCurve_table_def segment1_def segment2_def segment3_def segment4_def
      segment5_def min_def max_def field_simps)

lemma CoolingCurve_table_continuous: "continuous_on UNIV CoolingCurve_table"
proof -
  have "continuous_on UNIV (\<lambda>x :: real.
      - 24 + 7 / 2 * (min (max x 4) 5 - 4) - 4 / 5 * (min (max x 5) (15 / 2) - 5)
        + (max x (15 / 2) - 15 / 2) / 3)"
    by (intro continuous_intros) simp_all
  then show ?thesis
    by (simp add: CoolingCurve_table_clamp [abs_def])
qed

lemma TempToLambda_finite_part:
  "(\<lambda>x. finite_part (TempToLambda (Finite x))) = CoolingCurve_table"
  by (rule ext) (simp add: TempToLambda_CoolingCurve_table)

text \<open>
  C4. The curve is continuous at its four breakpoints. The function returns \<open>-24\<close> at
  \<open>4\<close>, \<open>-20.5\<close> at \<open>5\<close>, \<open>-22.5\<close> at \<open>7.5\<close> and \<open>-22\<close> at \<open>9\<close>; on each of the five
  intervals it is the formula of that segment; at each breakpoint the formulas of the two
  segments that meet there have the same value; and, as a function of a real argument, it is
  continuous at each of the four breakpoints.
\<close>

theorem TempToLambda_breakpoints:
  "TempToLambda (Finite 4.0) = Finite (- 24.0) \<and>
   TempToLambda (Finite 5.0) = Finite (- 20.5) \<and>
   TempToLambda (Finite 7.5) = Finite (- 22.5) \<and>
   TempToLambda (Finite 9.0) = Finite (- 22.0) \<and>
   (x < 4.0 \<longrightarrow> TempToLambda (Finite x) = Finite (segment1 x)) \<and>
   (4.0 \<le> x \<and> x < 5.0 \<longrightarrow> TempToLambda (Finite x) = Finite (segment2 x)) \<and>
   (5.0 \<le> x \<and> x < 7.5 \<longrightarrow> TempToLambda (Finite x) = Finite (segment3 x)) \<and>
   (7.5 \<le> x \<and> x < 9.0 \<longrightarrow> TempToLambda (Finite x) = Finite (segment4 x)) \<and>
   (9.0 \<le> x \<longrightarrow> TempToLambda (Finite x) = Finite (segment5 x)) \<and>
   segment1 4.0 = - 24.0 \<and> segment2 4.0 = - 24.0 \<and>
   segment2 5.0 = - 20.5 \<and> segment3 5.0 = - 20.5 \<and>
   segment3 7.5 = - 22.5 \<and> segment4 7.5 = - 22.5 \<and>
   segment4 9.0 = - 22.0 \<and> segment5 9.0 = - 22.0 \<and>
   isCont (\<lambda>x. finite_part (TempToLambda (Finite x))) 4.0 \<and>
   isCont (\<lambda>x. finite_part (TempToLambda (Finite x))) 5.0 \<and>
   isCont (\<lambda>x. finite_part (TempToLambda (Finite x))) 7.5 \<and>
   isCont (\<lambda>x. finite_part (TempToLambda (Finite x))) 9.0"
proof -
  have cont: "isCont (\<lambda>x. finite_part (TempToLambda (Finite x))) b" for b
    using CoolingCurve_table_continuous
    by (simp add: TempToLambda_finite_part continuous_on_eq_continuous_at)
  have seg: "(x < 4.0 \<longrightarrow> TempToLambda (Finite x) = Finite (segment1 x)) \<and>
   (4.0 \<le> x \<and> x < 5.0 \<longrightarrow> TempToLambda (Finite x) = Finite (segment2 x)) \<and>
   (5.0 \<le> x \<and> x < 7.5 \<longrightarrow> TempToLambda (Finite x) = Finite (segment3 x)) \<and>
   (7.5 \<le> x \<and> x < 9.0 \<longrightarrow> TempToLambda (Finite x) = Finite (segment4 x)) \<and>
   (9.0 \<le> x \<longrightarrow> TempToLambda (Finite x) = Finite (segment5 x))"
    by (simp add: TempToLambda_CoolingCurve_table CoolingCurve_table_def)
  have pts: "TempToLambda (Finite 4.0) = Finite (- 24.0) \<and>
   TempToLambda (Finite 5.0) = Finite (- 20.5) \<and>
   TempToLambda (Finite 7.5) = Finite (- 22.5) \<and>
   TempToLambda (Finite 9.0) = Finite (- 22.0) \<and>
   segment1 4.0 = - 24.0 \<and> segment2 4.0 = - 24.0 \<and>
   segment2 5.0 = - 20.5 \<and> segment3 5.0 = - 20.5 \<and>
   segment3 7.5 = - 22.5 \<and> segment4 7.5 = - 22.5 \<and>
   segment4 9.0 = - 22.0 \<and> segment5 9.0 = - 22.0"
    by (simp add: TempToLambda_Finite segment1_def segment2_def segment3_def segment4_def
      segment5_def)
  show ?thesis
    using cont seg pts by blast
qed


theorem TempToLambda_breakpoints_witness:
  "TempToLambda (Finite 3) = Finite (segment1 3) \<and>
   TempToLambda (Finite 4.5) = Finite (segment2 4.5) \<and>
   TempToLambda (Finite 6) = Finite (segment3 6) \<and>
   TempToLambda (Finite 8) = Finite (segment4 8) \<and>
   TempToLambda (Finite 10) = Finite (segment5 10)"
  using TempToLambda_breakpoints [of 3] TempToLambda_breakpoints [of "4.5"]
    TempToLambda_breakpoints [of 6] TempToLambda_breakpoints [of 8]
    TempToLambda_breakpoints [of 10]
  by simp

text \<open>
  C5, as the specification states it, fails: between \<open>5\<close> and \<open>7.5\<close> the curve falls,
  from \<open>-20.5\<close> at \<open>5\<close> to \<open>-22.1\<close> at \<open>7\<close>.
\<close>

theorem TempToLambda_not_monotone:
  "(4 :: real) \<le> 5 \<and> (5 :: real) \<le> 7 \<and> (7 :: real) < 9
   \<and> \<not> TempToLambda (Finite 5) \<le> TempToLambda (Finite 7)"
  by (simp add: TempToLambda_Finite)

text \<open>
  C5, amended. The curve does not fall on \<open>[4, 5]\<close> nor from \<open>7.5\<close> on, and it does not
  rise on \<open>[5, 7.5]\<close>; from \<open>9\<close> on it is linear with slope \<open>1/3\<close>.
\<close>

theorem TempToLambda_monotone_pieces:
  "(4 \<le> x \<and> x \<le> y \<and> y \<le> 5 \<longrightarrow> TempToLambda (Finite x) \<le> TempToLambda (Finite y)) \<and>
   (5 \<le> x \<and> x \<le> y \<and> y \<le> 7.5 \<longrightarrow> TempToLambda (Finite y) \<le> TempToLambda (Finite x)) \<and>
   (7.5 \<le> x \<and> x \<le> y \<longrightarrow> TempToLambda (Finite x) \<le> TempToLambda (Finite y)) \<and>
   (9 \<le> x \<and> 9 \<le> y \<longrightarrow>
      TempToLambda (Finite y) - TempToLambda (Finite x) = Finite ((y - x) / 3))"
  by (auto simp add: TempToLambda_Finite minus_fpval_def field_simps)

theorem TempToLambda_monotone_pieces_witness:
  "TempToLambda (Finite 4) \<le> TempToLambda (Finite 5) \<and>
   TempToLambda (Finite 7) \<le> TempToLambda (Finite 5) \<and>
   TempToLambda (Finite 8) \<le> TempToLambda (Finite 12) \<and>
   TempToLambda (Finite 12) - TempToLambda (Finite 9) = Finite 1"
  using TempToLambda_monotone_pieces [of 4 5] TempToLambda_monotone_pieces [of 5 7]
    TempToLambda_monotone_pieces [of 8 12] TempToLambda_monotone_pieces [of 9 12]
  by simp

section \<open>Facts about the arithmetic and the loops\<close>

lemma fpval_le_not_gt: "x \<le> y \<Longrightarrow> \<not> y < (x :: fpval)"
  by (cases x; cases y) simp_all



lemma for_loop_pointwise:
  assumes "\<And>i s. body i s x = (if C \<and> sel = i then g (s x) else s x)"
  shows "for_loop lo hi body s x = (if C \<and> lo \<le> sel \<and> sel \<le> hi then g (s x) else s x)"
  using assms
proof (induction lo hi body s rule: for_loop.induct)
  case (1 i hi body s)
  note body = "1.prems"
  show ?case
  proof (cases "i \<le> hi")
    case True
    have "for_loop i hi body s x = for_loop (i + 1) hi body (body i s) x"
      using True by (subst for_loop.simps) simp
    also have "\<dots> = (if C \<and> i + 1 \<le> sel \<and> sel \<le> hi then g (body i s x) else body i s x)"
      using "1.IH" [OF True body] by simp
    finally show ?thesis using True by (auto simp: body)
  next
    case False
    then show ?thesis by (subst for_loop.simps) auto
  qed
qed

text \<open>
  What one call of \<open>CoolingSource\<close> leaves in the conserved array: the three loops visit
  every owned cell once, and the visit of a cell rewrites the energy of that cell from the
  values of that cell.
\<close>

lemma CoolingSource_cons:
  "cons (CoolingSource pmb time dt a) (n, k, j, i) =
     (if n = IEN \<and> owned pmb k j i
      then cell_energy dt (prim a (IPR, k, j, i)) (prim a (IDN, k, j, i)) (cons a (IEN, k, j, i))
      else cons a (n, k, j, i))"
proof -
  define g where "g = cell_energy dt (prim a (IPR, k, j, i)) (prim a (IDN, k, j, i))"
  define cell where "cell = (\<lambda>k' j' i' (c :: var_index AthenaArray).
     let temp = prim a (IPR, k', j', i') / prim a (IDN, k', j', i')
                  * Finite mu * Finite amu / Finite kB;
         log10T = log10 temp;
         log10Lambda = TempToLambda log10T;
         Lambda = pow10 log10Lambda
     in if temp > Finite temp_goal then
          c((IEN, k', j', i') :=
             c (IEN, k', j', i')
               - dt * prim a (IDN, k', j', i') * prim a (IDN, k', j', i')
                   / Finite amu / Finite amu * Lambda)
        else c)"
  have cell: "cell k' j' i' c (n, k, j, i) =
      (if (n = IEN \<and> k = k' \<and> j = j') \<and> i = i' then g (c (n, k, j, i)) else c (n, k, j, i))"
    for k' j' i' c
    by (simp add: cell_def g_def cell_energy_def cell_temp_def Let_def)
  have inner: "for_loop (is' pmb) (ie pmb) (cell k' j') c (n, k, j, i) =
      (if (n = IEN \<and> k = k' \<and> is' pmb \<le> i \<and> i \<le> ie pmb) \<and> j = j'
       then g (c (n, k, j, i)) else c (n, k, j, i))" for k' j' c
    using for_loop_pointwise [of "cell k' j'" "(n, k, j, i)" "n = IEN \<and> k = k' \<and> j = j'" i g
        "is' pmb" "ie pmb" c, OF cell]
    by auto
  have middle: "for_loop (js pmb) (je pmb) (\<lambda>j'. for_loop (is' pmb) (ie pmb) (cell k' j')) c
        (n, k, j, i) =
      (if (n = IEN \<and> is' pmb \<le> i \<and> i \<le> ie pmb \<and> js pmb \<le> j \<and> j \<le> je pmb) \<and> k = k'
       then g (c (n, k, j, i)) else c (n, k, j, i))" for k' c
    using for_loop_pointwise [of "\<lambda>j'. for_loop (is' pmb) (ie pmb) (cell k' j')" "(n, k, j, i)"
        "n = IEN \<and> k = k' \<and> is' pmb \<le> i \<and> i \<le> ie pmb" j g "js pmb" "je pmb" c, OF inner]
    by auto
  have outer: "for_loop (ks pmb) (ke pmb)
        (\<lambda>k'. for_loop (js pmb) (je pmb) (\<lambda>j'. for_loop (is' pmb) (ie pmb) (cell k' j'))) c
        (n, k, j, i) =
      (if n = IEN \<and> owned pmb k j i then g (c (n, k, j, i)) else c (n, k, j, i))" for c
    using for_loop_pointwise [of
        "\<lambda>k'. for_loop (js pmb) (je pmb) (\<lambda>j'. for_loop (is' pmb) (ie pmb) (cell k' j'))"
        "(n, k, j, i)"
        "n = IEN \<and> is' pmb \<le> i \<and> i \<le> ie pmb \<and> js pmb \<le> j \<and> j \<le> je pmb" k g
        "ks pmb" "ke pmb" c, OF middle]
    by (auto simp: owned_def)
  have "cons (CoolingSource pmb time dt a) =
      for_loop (ks pmb) (ke pmb)
        (\<lambda>k'. for_loop (js pmb) (je pmb) (\<lambda>j'. for_loop (is' pmb) (ie pmb) (cell k' j')))
        (cons a)"
    by (simp add: CoolingSource_def cell_def)
  then show ?thesis
    by (simp add: outer g_def)
qed

lemma CoolingSource_frame:
  "prim (CoolingSource pmb time dt a) = prim a"
  "prim_scalar (CoolingSource pmb time dt a) = prim_scalar a"
  "bcc (CoolingSource pmb time dt a) = bcc a"
  "cons_scalar (CoolingSource pmb time dt a) = cons_scalar a"
  by (simp_all add: CoolingSource_def)












section \<open>Properties of the cooling source term\<close>




text \<open>
  C3. A cell whose temperature is at most \<open>temp_goal\<close> keeps its energy as it is.
\<close>

theorem CoolingSource_at_or_below_goal:
  assumes "cell_temp (prim a (IPR, k, j, i)) (prim a (IDN, k, j, i)) \<le> Finite temp_goal"
  shows "cons (CoolingSource pmb time dt a) (IEN, k, j, i) = cons a (IEN, k, j, i)"
  using fpval_le_not_gt [OF assms] by (simp add: CoolingSource_cons cell_energy_def)

theorem CoolingSource_at_or_below_goal_witness:
  "cell_temp (Finite 1) (Finite 1) \<le> Finite temp_goal
   \<and> cons (CoolingSource example_block (Finite 0) (Finite 2) (example_arrays 1 1 5))
         (IEN, 0, 0, 1) = Finite 5"
proof -
  have T: "cell_temp (Finite 1) (Finite 1) \<le> Finite temp_goal"
    by (simp add: cell_temp_def mu_def amu_def kB_def temp_goal_def)
  have T': "cell_temp (prim (example_arrays 1 1 5) (IPR, 0, 0, 1))
      (prim (example_arrays 1 1 5) (IDN, 0, 0, 1)) \<le> Finite temp_goal"
    using T by (simp add: example_arrays_def)
  show ?thesis
    using T CoolingSource_at_or_below_goal [OF T', of example_block "Finite 0" "Finite 2"]
    by (simp add: example_arrays_def)
qed

text \<open>
  C6. One call of \<open>CoolingSource\<close> changes nothing but energies: the primitive arrays, the
  field, both scalar arrays and every component of the conserved array other than the
  energy come out as they went in. The energy of a cell is rewritten from the pressure, the
  density and the energy of that same cell, so that a second set of arrays that agrees with
  the first on these three values gives the cell the same energy, whatever it holds
  elsewhere.
\<close>

theorem CoolingSource_only_energy:
  "prim (CoolingSource pmb time dt a) = prim a
   \<and> prim_scalar (CoolingSource pmb time dt a) = prim_scalar a
   \<and> bcc (CoolingSource pmb time dt a) = bcc a
   \<and> cons_scalar (CoolingSource pmb time dt a) = cons_scalar a
   \<and> (n \<noteq> IEN \<longrightarrow> cons (CoolingSource pmb time dt a) (n, k, j, i) = cons a (n, k, j, i))
   \<and> cons (CoolingSource pmb time dt a) (IEN, k, j, i) =
       (if owned pmb k j i
        then cell_energy dt (prim a (IPR, k, j, i)) (prim a (IDN, k, j, i))
               (cons a (IEN, k, j, i))
        else cons a (IEN, k, j, i))
   \<and> (prim a' (IPR, k, j, i) = prim a (IPR, k, j, i)
        \<and> prim a' (IDN, k, j, i) = prim a (IDN, k, j, i)
        \<and> cons a' (IEN, k, j, i) = cons a (IEN, k, j, i) \<longrightarrow>
      cons (CoolingSource pmb time dt a') (IEN, k, j, i) =
        cons (CoolingSource pmb time dt a) (IEN, k, j, i))"
  by (simp add: CoolingSource_frame CoolingSource_cons)

theorem CoolingSource_only_energy_witness:
  "IDN \<noteq> IEN
   \<and> cons (CoolingSource example_block (Finite 0) (Finite 2) (example_arrays (10 ^ 9) 1 5))
         (IDN, 0, 0, 1) = Finite 5
   \<and> cons (CoolingSource example_block (Finite 0) (Finite 2)
         ((example_arrays (10 ^ 9) 1 5)
            \<lparr>bcc := (\<lambda>x. Finite 3),
             cons := (cons (example_arrays (10 ^ 9) 1 5))((IEN, 0, 0, 0) := Finite 9)\<rparr>))
         (IEN, 0, 0, 1) =
       cons (CoolingSource example_block (Finite 0) (Finite 2) (example_arrays (10 ^ 9) 1 5))
         (IEN, 0, 0, 1)"
  using CoolingSource_only_energy [where n = IDN and k = 0 and j = 0 and i = 1
      and pmb = example_block and time = "Finite 0" and dt = "Finite 2"
      and a = "example_arrays (10 ^ 9) 1 5"
      and a' = "(example_arrays (10 ^ 9) 1 5)
            \<lparr>bcc := (\<lambda>x. Finite 3),
             cons := (cons (example_arrays (10 ^ 9) 1 5))((IEN, 0, 0, 0) := Finite 9)\<rparr>"]
  by (simp add: example_arrays_def)

text \<open>
  C10, as the specification states it, fails: pressure, density and \<open>dt\<close> do not determine
  the energy a cell leaves with, which is the energy it came with less the loss. Two calls
  that differ in nothing but the energy found in the cell end with different energies.
\<close>

theorem CoolingSource_energy_dependence:
  "prim (example_arrays 1 1 5) (IPR, 0, 0, 1) = prim (example_arrays 1 1 6) (IPR, 0, 0, 1)
   \<and> prim (example_arrays 1 1 5) (IDN, 0, 0, 1) = prim (example_arrays 1 1 6) (IDN, 0, 0, 1)
   \<and> cons (CoolingSource example_block (Finite 0) (Finite 2) (example_arrays 1 1 5))
         (IEN, 0, 0, 1)
     \<noteq> cons (CoolingSource example_block (Finite 0) (Finite 2) (example_arrays 1 1 6))
         (IEN, 0, 0, 1)"
  by (simp add: CoolingSource_cons cell_energy_def cell_temp_def example_arrays_def
      example_block_def owned_def mu_def amu_def kB_def temp_goal_def)

text \<open>
  C10, amended. The energy an owned cell leaves with is determined by the pressure, the
  density and the energy found in that cell and by \<open>dt\<close>: it is the same for another
  time, another block (another adiabatic index, another index range that owns the cell)
  and other arrays, as long as these agree on the three values of the cell.
\<close>

theorem CoolingSource_local:
  assumes "owned pmb k j i" and "owned pmb' k j i"
    and "prim a' (IPR, k, j, i) = prim a (IPR, k, j, i)"
    and "prim a' (IDN, k, j, i) = prim a (IDN, k, j, i)"
    and "cons a' (IEN, k, j, i) = cons a (IEN, k, j, i)"
  shows "cons (CoolingSource pmb' time' dt a') (IEN, k, j, i) =
           cons (CoolingSource pmb time dt a) (IEN, k, j, i)"
  using assms by (simp add: CoolingSource_cons)

theorem CoolingSource_local_witness:
  "owned example_block 0 0 1
   \<and> owned (example_block\<lparr>ke := 3, peos_GetGamma := Finite 2\<rparr>) 0 0 1
   \<and> cons (CoolingSource (example_block\<lparr>ke := 3, peos_GetGamma := Finite 2\<rparr>) (Finite 8)
         (Finite 2)
         ((example_arrays (10 ^ 9) 1 5)
            \<lparr>bcc := (\<lambda>x. Finite 3),
             cons := (cons (example_arrays (10 ^ 9) 1 5))((IEN, 0, 0, 0) := Finite 9)\<rparr>))
         (IEN, 0, 0, 1) =
       cons (CoolingSource example_block (Finite 0) (Finite 2) (example_arrays (10 ^ 9) 1 5))
         (IEN, 0, 0, 1)"
proof -
  have own: "owned example_block 0 0 1"
    by (simp add: owned_def example_block_def)
  have own': "owned (example_block\<lparr>ke := 3, peos_GetGamma := Finite 2\<rparr>) 0 0 1"
    by (simp add: owned_def example_block_def)
  show ?thesis
    using own own'
      CoolingSource_local [OF own own', where a = "example_arrays (10 ^ 9) 1 5"
        and a' = "(example_arrays (10 ^ 9) 1 5)
            \<lparr>bcc := (\<lambda>x. Finite 3),
             cons := (cons (example_arrays (10 ^ 9) 1 5))((IEN, 0, 0, 0) := Finite 9)\<rparr>"
        and time = "Finite 0" and time' = "Finite 8" and dt = "Finite 2"]
    by (simp add: example_arrays_def)
qed




section \<open>Properties of the initial state\<close>

text \<open>
  What \<open>ProblemGenerator\<close> leaves in the conserved array of the block: every owned cell is
  visited once and gets the same values, the energy only where the equation of state has
  one.
\<close>

lemma ProblemGenerator_u:
  "phydro_u (ProblemGenerator cfg pin pmb) (n, k, j, i) =
     (if owned pmb k j i then
        (case n of
           IDN \<Rightarrow> GetReal pin ''problem'' ''rho''
         | IM1 \<Rightarrow> Finite 0
         | IM2 \<Rightarrow> Finite 0
         | IM3 \<Rightarrow> Finite 0
         | IEN \<Rightarrow>
             if NON_BAROTROPIC_EOS cfg then
               GetReal pin ''problem'' ''rho'' * Finite kB * GetReal pin ''problem'' ''T''
                 / (GetReal pin ''hydro'' ''gamma'' - Finite 1) / Finite mu / Finite amu
             else phydro_u pmb (n, k, j, i)
         | IPR \<Rightarrow> phydro_u pmb (n, k, j, i))
      else phydro_u pmb (n, k, j, i))"
proof -
  define rho where "rho = GetReal pin ''problem'' ''rho''"
  define E where "E = rho * Finite kB * GetReal pin ''problem'' ''T''
      / (GetReal pin ''hydro'' ''gamma'' - Finite 1.0) / Finite mu / Finite amu"
  define g where "g = (\<lambda>v. case n of IDN \<Rightarrow> rho | IM1 \<Rightarrow> Finite 0 | IM2 \<Rightarrow> Finite 0
      | IM3 \<Rightarrow> Finite 0 | IEN \<Rightarrow> if NON_BAROTROPIC_EOS cfg then E else v | IPR \<Rightarrow> v)"
  define cell where "cell = (\<lambda>k' j' i' (u :: var_index AthenaArray).
     let u1 = u((IDN, k', j', i') := rho);
         u2 = u1((IM1, k', j', i') := Finite 0.0);
         u3 = u2((IM2, k', j', i') := Finite 0.0);
         u4 = u3((IM3, k', j', i') := Finite 0.0)
     in if NON_BAROTROPIC_EOS cfg then u4((IEN, k', j', i') := E) else u4)"
  have cell: "cell k' j' i' u (n, k, j, i) =
      (if (k = k' \<and> j = j') \<and> i = i' then g (u (n, k, j, i)) else u (n, k, j, i))"
    for k' j' i' u
    by (cases n) (simp_all add: cell_def g_def Let_def)
  have inner: "for_loop (is' pmb) (ie pmb) (cell k' j') u (n, k, j, i) =
      (if (k = k' \<and> is' pmb \<le> i \<and> i \<le> ie pmb) \<and> j = j'
       then g (u (n, k, j, i)) else u (n, k, j, i))" for k' j' u
    using for_loop_pointwise [of "cell k' j'" "(n, k, j, i)" "k = k' \<and> j = j'" i g
        "is' pmb" "ie pmb" u, OF cell]
    by auto
  have middle: "for_loop (js pmb) (je pmb) (\<lambda>j'. for_loop (is' pmb) (ie pmb) (cell k' j')) u
        (n, k, j, i) =
      (if (is' pmb \<le> i \<and> i \<le> ie pmb \<and> js pmb \<le> j \<and> j \<le> je pmb) \<and> k = k'
       then g (u (n, k, j, i)) else u (n, k, j, i))" for k' u
    using for_loop_pointwise [of "\<lambda>j'. for_loop (is' pmb) (ie pmb) (cell k' j')" "(n, k, j, i)"
        "k = k' \<and> is' pmb \<le> i \<and> i \<le> ie pmb" j g "js pmb" "je pmb" u, OF inner]
    by auto
  have outer: "for_loop (ks pmb) (ke pmb)
        (\<lambda>k'. for_loop (js pmb) (je pmb) (\<lambda>j'. for_loop (is' pmb) (ie pmb) (cell k' j'))) u
        (n, k, j, i) =
      (if owned pmb k j i then g (u (n, k, j, i)) else u (n, k, j, i))" for u
    using for_loop_pointwise [of
        "\<lambda>k'. for_loop (js pmb) (je pmb) (\<lambda>j'. for_loop (is' pmb) (ie pmb) (cell k' j'))"
        "(n, k, j, i)"
        "is' pmb \<le> i \<and> i \<le> ie pmb \<and> js pmb \<le> j \<and> j \<le> je pmb" k g
        "ks pmb" "ke pmb" u, OF middle]
    by (auto simp: owned_def)
  have run: "phydro_u (ProblemGenerator cfg pin pmb) =
      for_loop (ks pmb) (ke pmb)
        (\<lambda>k'. for_loop (js pmb) (je pmb) (\<lambda>j'. for_loop (is' pmb) (ie pmb) (cell k' j')))
        (phydro_u pmb)"
    unfolding ProblemGenerator_def cell_def E_def rho_def Let_def by simp
  show ?thesis
    unfolding run outer g_def E_def rho_def by (cases n) simp_all
qed

text \<open>
  C7. In every cell the block owns, \<open>ProblemGenerator\<close> sets the density to the configured
  \<open>rho\<close> and the three momenta to zero; with \<open>NON_BAROTROPIC_EOS\<close> it sets the energy to
  \<open>rho \<sqdot> k\<^sub>B \<sqdot> T / (gamma - 1) / \<mu> / amu\<close>, which for finite parameters and \<open>gamma \<noteq> 1\<close> is
  that real number, and without it the energy is not written. Two owned cells hold the same
  value in every component written, and the three constants have the values of the
  specification.
\<close>

theorem ProblemGenerator_uniform_state:
  assumes "owned pmb k j i"
  shows "phydro_u (ProblemGenerator cfg pin pmb) (IDN, k, j, i) = GetReal pin ''problem'' ''rho''
       \<and> phydro_u (ProblemGenerator cfg pin pmb) (IM1, k, j, i) = Finite 0
       \<and> phydro_u (ProblemGenerator cfg pin pmb) (IM2, k, j, i) = Finite 0
       \<and> phydro_u (ProblemGenerator cfg pin pmb) (IM3, k, j, i) = Finite 0
       \<and> (NON_BAROTROPIC_EOS cfg \<longrightarrow>
            phydro_u (ProblemGenerator cfg pin pmb) (IEN, k, j, i) =
              GetReal pin ''problem'' ''rho'' * Finite kB * GetReal pin ''problem'' ''T''
                / (GetReal pin ''hydro'' ''gamma'' - Finite 1) / Finite mu / Finite amu)
       \<and> (NON_BAROTROPIC_EOS cfg \<and> GetReal pin ''problem'' ''rho'' = Finite r
            \<and> GetReal pin ''problem'' ''T'' = Finite t
            \<and> GetReal pin ''hydro'' ''gamma'' = Finite gam \<and> gam \<noteq> 1 \<longrightarrow>
            phydro_u (ProblemGenerator cfg pin pmb) (IEN, k, j, i) =
              Finite (r * kB * t / (gam - 1) / mu / amu))
       \<and> (\<not> NON_BAROTROPIC_EOS cfg \<longrightarrow>
            phydro_u (ProblemGenerator cfg pin pmb) (IEN, k, j, i) = phydro_u pmb (IEN, k, j, i))
       \<and> (owned pmb k2 j2 i2 \<and> n \<noteq> IPR \<and> (n = IEN \<longrightarrow> NON_BAROTROPIC_EOS cfg) \<longrightarrow>
            phydro_u (ProblemGenerator cfg pin pmb) (n, k2, j2, i2) =
              phydro_u (ProblemGenerator cfg pin pmb) (n, k, j, i))
       \<and> mu = 0.62 \<and> kB = 1.3807 / 10 ^ 16 \<and> amu = 1.660539 / 10 ^ 24"
proof -
  have "gam \<noteq> 1 \<Longrightarrow>
      Finite r * Finite kB * Finite t / (Finite gam - Finite 1) / Finite mu / Finite amu =
        Finite (r * kB * t / (gam - 1) / mu / amu)"
    by (simp add: minus_fpval_def mu_def amu_def)
  then show ?thesis
    using assms
    by (cases n) (simp_all add: ProblemGenerator_u mu_def kB_def amu_def)
qed

theorem ProblemGenerator_uniform_state_witness:
  "owned example_block 0 0 1 \<and> owned example_block 0 0 0
   \<and> phydro_u (ProblemGenerator \<lparr>SELF_GRAVITY_ENABLED = False, FFT = False,
          NON_BAROTROPIC_EOS = True\<rparr> (example_pin 0) example_block) (IDN, 0, 0, 1) = Finite 1
   \<and> phydro_u (ProblemGenerator \<lparr>SELF_GRAVITY_ENABLED = False, FFT = False,
          NON_BAROTROPIC_EOS = True\<rparr> (example_pin 0) example_block) (IM1, 0, 0, 1) = Finite 0
   \<and> phydro_u (ProblemGenerator \<lparr>SELF_GRAVITY_ENABLED = False, FFT = False,
          NON_BAROTROPIC_EOS = True\<rparr> (example_pin 0) example_block) (IEN, 0, 0, 1) =
       Finite (1 * kB * 10 ^ 6 / (5 / 3 - 1) / mu / amu)
   \<and> phydro_u (ProblemGenerator \<lparr>SELF_GRAVITY_ENABLED = False, FFT = False,
          NON_BAROTROPIC_EOS = True\<rparr> (example_pin 0) example_block) (IEN, 0, 0, 0) =
       phydro_u (ProblemGenerator \<lparr>SELF_GRAVITY_ENABLED = False, FFT = False,
          NON_BAROTROPIC_EOS = True\<rparr> (example_pin 0) example_block) (IEN, 0, 0, 1)
   \<and> phydro_u (ProblemGenerator \<lparr>SELF_GRAVITY_ENABLED = False, FFT = False,
          NON_BAROTROPIC_EOS = False\<rparr> (example_pin 0) example_block) (IEN, 0, 0, 1) = Finite 7"
proof -
  have own: "owned example_block 0 0 1"
    by (simp add: owned_def example_block_def)
  have own0: "owned example_block 0 0 0"
    by (simp add: owned_def example_block_def)
  have pin: "GetReal (example_pin 0) ''problem'' ''rho'' = Finite 1"
    "GetReal (example_pin 0) ''problem'' ''T'' = Finite (10 ^ 6)"
    "GetReal (example_pin 0) ''hydro'' ''gamma'' = Finite (5 / 3)"
    by (simp_all add: example_pin_def)
  note on = ProblemGenerator_uniform_state [OF own, where pin = "example_pin 0"
      and cfg = "\<lparr>SELF_GRAVITY_ENABLED = False, FFT = False, NON_BAROTROPIC_EOS = True\<rparr>"
      and r = 1 and t = "10 ^ 6" and gam = "5 / 3" and n = IEN and ?k2.0 = 0 and ?j2.0 = 0
      and ?i2.0 = 0]
  note off = ProblemGenerator_uniform_state [OF own, where pin = "example_pin 0"
      and cfg = "\<lparr>SELF_GRAVITY_ENABLED = False, FFT = False, NON_BAROTROPIC_EOS = False\<rparr>"]
  have old: "phydro_u example_block (IEN, 0, 0, 1) = Finite 7"
    by (simp add: example_block_def)
  have baro: "NON_BAROTROPIC_EOS
      \<lparr>SELF_GRAVITY_ENABLED = False, FFT = False, NON_BAROTROPIC_EOS = True\<rparr>"
    "\<not> NON_BAROTROPIC_EOS
      \<lparr>SELF_GRAVITY_ENABLED = False, FFT = False, NON_BAROTROPIC_EOS = False\<rparr>"
    by simp_all
  have fin: "NON_BAROTROPIC_EOS
      \<lparr>SELF_GRAVITY_ENABLED = False, FFT = False, NON_BAROTROPIC_EOS = True\<rparr>
      \<and> GetReal (example_pin 0) ''problem'' ''rho'' = Finite 1
      \<and> GetReal (example_pin 0) ''problem'' ''T'' = Finite (10 ^ 6)
      \<and> GetReal (example_pin 0) ''hydro'' ''gamma'' = Finite (5 / 3) \<and> (5 / 3 :: real) \<noteq> 1"
    using pin by simp
  have same: "owned example_block 0 0 0 \<and> IEN \<noteq> IPR
      \<and> (IEN = IEN \<longrightarrow> NON_BAROTROPIC_EOS
        \<lparr>SELF_GRAVITY_ENABLED = False, FFT = False, NON_BAROTROPIC_EOS = True\<rparr>)"
    using own0 by simp
  note rest = on [THEN conjunct2, THEN conjunct2, THEN conjunct2, THEN conjunct2,
      THEN conjunct2]
  show ?thesis
    using own own0
      on [THEN conjunct1, unfolded pin]
      on [THEN conjunct2, THEN conjunct1]
      rest [THEN conjunct1, THEN mp, OF fin]
      rest [THEN conjunct2, THEN conjunct2, THEN conjunct1, THEN mp, OF same]
      off [THEN conjunct2, THEN conjunct2, THEN conjunct2, THEN conjunct2, THEN conjunct2,
        THEN conjunct2, THEN conjunct1, THEN mp, OF baro(2), unfolded old]
    by (intro conjI)
qed

section \<open>Properties of the set-up\<close>

text \<open>
  C8. With a turbulence flag of zero, or with \<open>FFT\<close> defined, \<open>InitUserMeshData\<close> succeeds: it
  stores the flag, forwards \<open>four_pi_G\<close> and \<open>grav_eps\<close> (default \<open>0.0\<close>) to the host exactly
  when \<open>SELF_GRAVITY_ENABLED\<close> holds, and enrolls \<open>CoolingSource\<close>. With a flag of \<open>1\<close>,
  \<open>2\<close> or \<open>3\<close> and \<open>FFT\<close> not defined it ends in the fatal error with the diagnostic of
  the source, and enrolls nothing.
\<close>

theorem InitUserMeshData_outcomes:
  "(GetInteger pin ''problem'' ''turb_flag'' = 0 \<or> FFT cfg \<longrightarrow>
      InitUserMeshData cfg pin m =
        Inr (m\<lparr>turb_flag := GetInteger pin ''problem'' ''turb_flag'',
               host_calls := host_calls m
                 @ (if SELF_GRAVITY_ENABLED cfg then
                      [SetFourPiG (GetReal pin ''problem'' ''four_pi_G''),
                       SetGravityThreshold (GetOrAddReal pin ''problem'' ''grav_eps'' (Finite 0))]
                    else [])
                 @ [EnrollUserExplicitSourceFunction CoolingSource]\<rparr>))
   \<and> (GetInteger pin ''problem'' ''turb_flag'' \<in> {1, 2, 3} \<and> \<not> FFT cfg \<longrightarrow>
      InitUserMeshData cfg pin m = Inl (FatalError msg))"
  by (auto simp add: InitUserMeshData_def call_def Let_def)


theorem InitUserMeshData_outcomes_witness:
  "InitUserMeshData \<lparr>SELF_GRAVITY_ENABLED = True, FFT = False, NON_BAROTROPIC_EOS = True\<rparr>
       (example_pin 0) example_mesh =
     Inr \<lparr>turb_flag = 0,
          host_calls = [SetFourPiG (Finite 1), SetGravityThreshold (Finite 0),
            EnrollUserExplicitSourceFunction CoolingSource]\<rparr>
   \<and> InitUserMeshData \<lparr>SELF_GRAVITY_ENABLED = True, FFT = False, NON_BAROTROPIC_EOS = True\<rparr>
       (example_pin 2) example_mesh = Inl (FatalError msg)
   \<and> InitUserMeshData \<lparr>SELF_GRAVITY_ENABLED = False, FFT = True, NON_BAROTROPIC_EOS = True\<rparr>
       (example_pin 2) example_mesh =
     Inr \<lparr>turb_flag = 2, host_calls = [EnrollUserExplicitSourceFunction CoolingSource]\<rparr>"
  using
    InitUserMeshData_outcomes [where pin = "example_pin 0" and m = example_mesh
      and cfg = "\<lparr>SELF_GRAVITY_ENABLED = True, FFT = False, NON_BAROTROPIC_EOS = True\<rparr>"]
    InitUserMeshData_outcomes [where pin = "example_pin 2" and m = example_mesh
      and cfg = "\<lparr>SELF_GRAVITY_ENABLED = True, FFT = False, NON_BAROTROPIC_EOS = True\<rparr>"]
    InitUserMeshData_outcomes [where pin = "example_pin 2" and m = example_mesh
      and cfg = "\<lparr>SELF_GRAVITY_ENABLED = False, FFT = True, NON_BAROTROPIC_EOS = True\<rparr>"]
  by (simp add: example_pin_def example_mesh_def)

end
